theory Spec2Isabelle
  imports Complex_Main
begin

section \<open>The critical issue detector of \<^verbatim>\<open>critical_detector.py\<close>\<close>

text \<open>
  The class \<^verbatim>\<open>CriticalIssueDetector\<close> is embedded method by method. Conventions:

  \<^item> An instant (a naive \<^verbatim>\<open>datetime\<close>, the kind \<^verbatim>\<open>datetime.now()\<close> returns) is an integer
    number of microseconds counted from \<^verbatim>\<open>datetime.min\<close>; a difference of two instants is a
    \<^verbatim>\<open>timedelta\<close>.
  \<^item> A Python float is read as the real number it stands for, and the literals \<^verbatim>\<open>0.7\<close> and
    \<^verbatim>\<open>0.9\<close> as 7/10 and 9/10; rounding is not modelled.
  \<^item> Every \<^verbatim>\<open>datetime.now()\<close> of the source is an explicit argument: a rule receives the value
    its single call returns, and \<^verbatim>\<open>check_critical_issues\<close> receives one reading per call site.
  \<^item> An exception is a value: a method returns \<open>Inl\<close> of the error where the source raises.
  \<^item> A public method returns the detector next to its result, so that what it does to
    \<^verbatim>\<open>self\<close> can be stated.
\<close>

subsection \<open>Data\<close>

type_synonym instant = int

datatype py_error = ValueError | OverflowError

text \<open>
  The \<^verbatim>\<open>'timestamp'\<close> entry of an observation dictionary, seen through
  \<^verbatim>\<open>datetime.fromisoformat\<close>: the key is missing, or its string parses to an instant (a
  naive one, as \<^verbatim>\<open>isoformat()\<close> of \<^verbatim>\<open>datetime.now()\<close> writes it), or its string does not parse
  (the library raises \<^verbatim>\<open>ValueError\<close>).
\<close>

datatype timestamp_field = Absent | Parsed instant | Unparsable

record observation =
  timestamp :: timestamp_field
  dominant_emotion :: "string option"
  confidence :: "real option"

text \<open>Values stored under the keys of a \<^verbatim>\<open>details\<close> dictionary.\<close>

datatype jvalue = JNull | JStr string | JInt int | JFloat real

record issue =
  type :: string
  severity :: string
  details :: "(string \<times> jvalue) list"
  recommendation :: string

text \<open>
  An entry of \<^verbatim>\<open>issue_history\<close>. Its timestamp is written with \<^verbatim>\<open>isoformat()\<close> and read
  back with \<^verbatim>\<open>fromisoformat\<close>, which returns the instant that was written.
\<close>

record history_entry =
  h_timestamp :: instant
  h_issue_type :: string
  h_severity :: string
  h_details :: "(string \<times> jvalue) list"

record sustained_negative_emotion_cfg =
  sne_emotion :: "string list"
  sne_duration_minutes :: int
  sne_confidence_threshold :: real

record rapid_emotion_swings_cfg =
  res_swings_per_minute :: int
  res_time_window_minutes :: int

record extreme_emotion_cfg =
  ext_emotion :: "string list"
  ext_confidence_threshold :: real
  ext_duration_minutes :: int

record communication_breakdown_cfg =
  cb_no_response_minutes :: int

record thresholds =
  sustained_negative_emotion :: sustained_negative_emotion_cfg
  rapid_emotion_swings :: rapid_emotion_swings_cfg
  extreme_emotion :: extreme_emotion_cfg
  communication_breakdown :: communication_breakdown_cfg

record detector =
  issue_history :: "history_entry list"
  critical_thresholds :: thresholds

text \<open>The constructor \<^verbatim>\<open>__init__\<close>.\<close>

definition init :: detector where
  "init =
     \<lparr>issue_history = [],
      critical_thresholds =
        \<lparr>sustained_negative_emotion =
           \<lparr>sne_emotion = [''sad'', ''angry'', ''fearful''],
            sne_duration_minutes = 15,
            sne_confidence_threshold = 0.7\<rparr>,
         rapid_emotion_swings =
           \<lparr>res_swings_per_minute = 3,
            res_time_window_minutes = 5\<rparr>,
         extreme_emotion =
           \<lparr>ext_emotion = [''angry'', ''fearful''],
            ext_confidence_threshold = 0.9,
            ext_duration_minutes = 5\<rparr>,
         communication_breakdown =
           \<lparr>cb_no_response_minutes = 30\<rparr>\<rparr>\<rparr>"

subsection \<open>Windowing\<close>

text \<open>\<^verbatim>\<open>(a - b).total_seconds() / 60\<close>\<close>

definition minutes_between :: "instant \<Rightarrow> instant \<Rightarrow> real" where
  "minutes_between a b = real_of_int (a - b) / 1000000 / 60"

text \<open>
  \<^verbatim>\<open>datetime.fromisoformat(e.get('timestamp', now.isoformat()))\<close>: a missing key reads as
  \<open>now\<close>, an unparsable string raises.
\<close>

definition observed_at :: "instant \<Rightarrow> observation \<Rightarrow> py_error + instant" where
  "observed_at now e =
     (case timestamp e of
        Absent \<Rightarrow> Inr now
      | Parsed t \<Rightarrow> Inr t
      | Unparsable \<Rightarrow> Inl ValueError)"

text \<open>
  The list comprehension that builds \<^verbatim>\<open>recent_emotions\<close>. It visits every element, so an
  exception at any element leaves the comprehension, and the method, without a list.
\<close>

fun recent_emotions :: "instant \<Rightarrow> int \<Rightarrow> observation list \<Rightarrow> py_error + observation list" where
  "recent_emotions now duration [] = Inr []"
| "recent_emotions now duration (e # es) =
     (case observed_at now e of
        Inl err \<Rightarrow> Inl err
      | Inr t \<Rightarrow>
          (case recent_emotions now duration es of
             Inl err \<Rightarrow> Inl err
           | Inr rest \<Rightarrow>
               Inr (if minutes_between now t \<le> real_of_int duration then e # rest else rest)))"

text \<open>\<^verbatim>\<open>e.get('dominant_emotion') in emotions and e.get('confidence', 0) >= cutoff\<close>\<close>

definition get_confidence :: "observation \<Rightarrow> real" where
  "get_confidence e = (case confidence e of None \<Rightarrow> 0 | Some c \<Rightarrow> c)"

definition emotion_in :: "observation \<Rightarrow> string list \<Rightarrow> bool" where
  "emotion_in e emotions =
     (case dominant_emotion e of None \<Rightarrow> False | Some l \<Rightarrow> l \<in> set emotions)"

definition emotion_value :: "observation \<Rightarrow> jvalue" where
  "emotion_value e = (case dominant_emotion e of None \<Rightarrow> JNull | Some l \<Rightarrow> JStr l)"

definition confidence_value :: "observation \<Rightarrow> jvalue" where
  "confidence_value e = (case confidence e of None \<Rightarrow> JInt 0 | Some c \<Rightarrow> JFloat c)"

subsection \<open>The four rules\<close>

definition check_sustained_negative_emotion ::
  "detector \<Rightarrow> instant \<Rightarrow> observation list \<Rightarrow> py_error + issue option" where
  "check_sustained_negative_emotion self now emotion_data =
     (if length emotion_data < 5 then Inr None
      else
        let threshold = sustained_negative_emotion (critical_thresholds self);
            negative_emotions = sne_emotion threshold;
            duration = sne_duration_minutes threshold;
            confidence_threshold = sne_confidence_threshold threshold
        in case recent_emotions now duration emotion_data of
             Inl err \<Rightarrow> Inl err
           | Inr recent \<Rightarrow>
               if length recent < 3 then Inr None
               else
                 let negative_count =
                       length (filter (\<lambda>e. emotion_in e negative_emotions
                                            \<and> get_confidence e \<ge> confidence_threshold) recent)
                 in if real negative_count \<ge> real (length recent) * 0.7
                    then Inr (Some
                      \<lparr>type = ''sustained_negative_emotion'',
                       severity = ''high'',
                       details =
                         [(''emotion'', emotion_value (last recent)),
                          (''duration_minutes'', JInt duration),
                          (''negative_percentage'',
                             JFloat (real negative_count / real (length recent) * 100))],
                       recommendation =
                         ''Immediate psychological support recommended. Consider ground control notification.''\<rparr>)
                    else Inr None)"

text \<open>
  The loop that counts emotion changes. \<^verbatim>\<open>if prev_emotion and current != prev_emotion\<close>
  tests the truth value of the previous label: \<^verbatim>\<open>None\<close> and the empty string are false.
\<close>

definition truthy :: "string option \<Rightarrow> bool" where
  "truthy l = (case l of None \<Rightarrow> False | Some s \<Rightarrow> s \<noteq> [])"

fun count_emotion_changes :: "nat \<Rightarrow> string option \<Rightarrow> observation list \<Rightarrow> nat" where
  "count_emotion_changes emotion_changes prev_emotion [] = emotion_changes"
| "count_emotion_changes emotion_changes prev_emotion (e # es) =
     (let current = dominant_emotion e
      in count_emotion_changes
           (if truthy prev_emotion \<and> current \<noteq> prev_emotion
            then emotion_changes + 1 else emotion_changes)
           current es)"

definition check_rapid_emotion_swings ::
  "detector \<Rightarrow> instant \<Rightarrow> observation list \<Rightarrow> py_error + issue option" where
  "check_rapid_emotion_swings self now emotion_data =
     (if length emotion_data < 5 then Inr None
      else
        let threshold = rapid_emotion_swings (critical_thresholds self);
            swings_per_minute = res_swings_per_minute threshold;
            time_window = res_time_window_minutes threshold
        in case recent_emotions now time_window emotion_data of
             Inl err \<Rightarrow> Inl err
           | Inr recent \<Rightarrow>
               if length recent < 3 then Inr None
               else
                 let emotion_changes = count_emotion_changes 0 None recent
                 in if int emotion_changes \<ge> swings_per_minute * time_window
                    then Inr (Some
                      \<lparr>type = ''rapid_emotion_swings'',
                       severity = ''medium'',
                       details =
                         [(''swings_detected'', JInt (int emotion_changes)),
                          (''time_window_minutes'', JInt time_window)],
                       recommendation =
                         ''Monitor closely. May indicate stress or instability.''\<rparr>)
                    else Inr None)"

definition check_extreme_emotion ::
  "detector \<Rightarrow> instant \<Rightarrow> observation list \<Rightarrow> py_error + issue option" where
  "check_extreme_emotion self now emotion_data =
     (if emotion_data = [] then Inr None
      else
        let threshold = extreme_emotion (critical_thresholds self);
            extreme_emotions = ext_emotion threshold;
            confidence_threshold = ext_confidence_threshold threshold;
            duration = ext_duration_minutes threshold
        in case recent_emotions now duration emotion_data of
             Inl err \<Rightarrow> Inl err
           | Inr recent \<Rightarrow>
               if recent = [] then Inr None
               else
                 let extreme_count =
                       length (filter (\<lambda>e. emotion_in e extreme_emotions
                                            \<and> get_confidence e \<ge> confidence_threshold) recent)
                 in if extreme_count \<ge> 2
                    then Inr (Some
                      \<lparr>type = ''extreme_emotion'',
                       severity = ''high'',
                       details =
                         [(''emotion'', emotion_value (last recent)),
                          (''confidence'', confidence_value (last recent)),
                          (''occurrences'', JInt (int extreme_count))],
                       recommendation =
                         ''Immediate attention required. Consider ground control notification.''\<rparr>)
                    else Inr None)"

text \<open>A \<^verbatim>\<open>datetime\<close> is always true, so \<^verbatim>\<open>not last_interaction\<close> holds exactly for \<^verbatim>\<open>None\<close>.\<close>

definition check_communication_breakdown :: "detector \<Rightarrow> instant \<Rightarrow> instant option \<Rightarrow> issue option" where
  "check_communication_breakdown self now last_interaction =
     (let threshold = communication_breakdown (critical_thresholds self);
          no_response_minutes = cb_no_response_minutes threshold
      in case last_interaction of
           None \<Rightarrow> None
         | Some t \<Rightarrow>
             let minutes_since = minutes_between now t
             in if minutes_since \<ge> real_of_int no_response_minutes
                then Some
                  \<lparr>type = ''communication_breakdown'',
                   severity = ''high'',
                   details = [(''minutes_since_last_interaction'', JFloat minutes_since)],
                   recommendation =
                     ''Attempt to re-establish communication. If unsuccessful, notify ground control.''\<rparr>
                else None)"

subsection \<open>\<^verbatim>\<open>check_critical_issues\<close>\<close>

text \<open>
  The clock readings of one call, by call site: one in each rule, and one for each entry
  the logging loop appends (\<open>now_log k\<close> for the entry of the issue at position \<open>k\<close>).
\<close>

record clock =
  now_sustained :: instant
  now_swings :: instant
  now_extreme :: instant
  now_breakdown :: instant
  now_log :: "nat \<Rightarrow> instant"

text \<open>\<^verbatim>\<open>if x: issues.append(x)\<close>\<close>

definition append_if :: "issue option \<Rightarrow> issue list" where
  "append_if x = (case x of None \<Rightarrow> [] | Some i \<Rightarrow> [i])"

fun log_issues :: "(nat \<Rightarrow> instant) \<Rightarrow> nat \<Rightarrow> issue list \<Rightarrow> detector \<Rightarrow> detector" where
  "log_issues reading k [] self = self"
| "log_issues reading k (i # rest) self =
     log_issues reading (Suc k) rest
       (self\<lparr>issue_history := issue_history self @
          [\<lparr>h_timestamp = reading k,
            h_issue_type = type i,
            h_severity = severity i,
            h_details = details i\<rparr>]\<rparr>)"

definition check_critical_issues ::
  "clock \<Rightarrow> detector \<Rightarrow> observation list \<Rightarrow> observation list option \<Rightarrow> instant option
     \<Rightarrow> (py_error + issue list) \<times> detector" where
  "check_critical_issues clk self emotion_data audio_data last_interaction =
     (case check_sustained_negative_emotion self (now_sustained clk) emotion_data of
        Inl err \<Rightarrow> (Inl err, self)
      | Inr sustained \<Rightarrow>
     (case check_rapid_emotion_swings self (now_swings clk) emotion_data of
        Inl err \<Rightarrow> (Inl err, self)
      | Inr swings \<Rightarrow>
     (case check_extreme_emotion self (now_extreme clk) emotion_data of
        Inl err \<Rightarrow> (Inl err, self)
      | Inr extreme \<Rightarrow>
          let issues =
                append_if sustained @ append_if swings @ append_if extreme @
                (case last_interaction of
                   None \<Rightarrow> []
                 | Some t \<Rightarrow>
                     append_if (check_communication_breakdown self (now_breakdown clk) (Some t)))
          in (Inr issues, log_issues (now_log clk) 0 issues self))))"

subsection \<open>\<^verbatim>\<open>get_issue_history\<close>\<close>

text \<open>
  \<^verbatim>\<open>datetime.max\<close> is 9999-12-31T23:59:59.999999, the last microsecond of day 3652059.
  \<^verbatim>\<open>timedelta(hours=h)\<close> raises \<^verbatim>\<open>OverflowError\<close> when its day count leaves
  \<open>\<plusminus>999999999\<close>, and \<^verbatim>\<open>datetime - timedelta\<close> raises it when the result leaves
  \<^verbatim>\<open>datetime.min .. datetime.max\<close>.
\<close>

definition datetime_max :: instant where
  "datetime_max = 3652059 * 86400000000 - 1"

definition valid_datetime :: "instant \<Rightarrow> bool" where
  "valid_datetime t = (0 \<le> t \<and> t \<le> datetime_max)"

definition timedelta_hours :: "int \<Rightarrow> py_error + int" where
  "timedelta_hours hours =
     (let us = hours * 3600000000; days = us div 86400000000
      in if days < - 999999999 \<or> 999999999 < days then Inl OverflowError else Inr us)"

definition datetime_minus :: "instant \<Rightarrow> int \<Rightarrow> py_error + instant" where
  "datetime_minus t delta =
     (if valid_datetime (t - delta) then Inr (t - delta) else Inl OverflowError)"

definition get_issue_history ::
  "instant \<Rightarrow> detector \<Rightarrow> int \<Rightarrow> (py_error + history_entry list) \<times> detector" where
  "get_issue_history now self hours =
     (case timedelta_hours hours of
        Inl err \<Rightarrow> (Inl err, self)
      | Inr delta \<Rightarrow>
          (case datetime_minus now delta of
             Inl err \<Rightarrow> (Inl err, self)
           | Inr cutoff \<Rightarrow>
               (Inr (filter (\<lambda>issue. h_timestamp issue \<ge> cutoff) (issue_history self)), self)))"

subsection \<open>\<^verbatim>\<open>generate_report\<close>\<close>

text \<open>
  \<^verbatim>\<open>strftime\<close> and \<^verbatim>\<open>json.dumps\<close> belong to the Python library, not to the repository:
  the report takes them as the parameters \<open>strftime\<close> (for the format
  \<^verbatim>\<open>'%Y-%m-%d %H:%M:%S'\<close>) and \<open>json_dumps\<close> (for \<^verbatim>\<open>indent=2\<close>). The string methods are
  modelled on ASCII text, which is what the rules put into an issue.
\<close>

definition newline :: char where
  "newline = CHR 0x0A"

definition ascii_upper :: "char \<Rightarrow> char" where
  "ascii_upper c =
     (let n = (of_char c :: nat) in if 97 \<le> n \<and> n \<le> 122 then char_of (n - 32) else c)"

definition ascii_lower :: "char \<Rightarrow> char" where
  "ascii_lower c =
     (let n = (of_char c :: nat) in if 65 \<le> n \<and> n \<le> 90 then char_of (n + 32) else c)"

definition is_cased :: "char \<Rightarrow> bool" where
  "is_cased c =
     (let n = (of_char c :: nat) in (65 \<le> n \<and> n \<le> 90) \<or> (97 \<le> n \<and> n \<le> 122))"

text \<open>\<^verbatim>\<open>str.upper()\<close>\<close>

definition upper :: "string \<Rightarrow> string" where
  "upper s = map ascii_upper s"

text \<open>
  \<^verbatim>\<open>str.title()\<close>: a character that follows a cased character is lowered, any other is
  raised.
\<close>

fun title_from :: "bool \<Rightarrow> string \<Rightarrow> string" where
  "title_from previous_is_cased [] = []"
| "title_from previous_is_cased (c # cs) =
     (if previous_is_cased then ascii_lower c else ascii_upper c) # title_from (is_cased c) cs"

definition title :: "string \<Rightarrow> string" where
  "title s = title_from False s"

text \<open>\<^verbatim>\<open>s.replace('_', ' ')\<close>\<close>

definition replace_underscores :: "string \<Rightarrow> string" where
  "replace_underscores s = map (\<lambda>c. if c = CHR ''_'' then CHR '' '' else c) s"

text \<open>The decimal text of the index \<^verbatim>\<open>i\<close> in an f-string.\<close>

definition digit_char :: "nat \<Rightarrow> char" where
  "digit_char d = char_of (48 + d)"

function str_nat :: "nat \<Rightarrow> string" where
  "str_nat n = (if n < 10 then [digit_char n] else str_nat (n div 10) @ [digit_char (n mod 10)])"
  by pat_completeness auto
termination
  by (relation "measure (\<lambda>n. n)") auto

declare str_nat.simps [simp del]

text \<open>The body of the loop \<^verbatim>\<open>for i, issue in enumerate(issues, 1)\<close>.\<close>

definition issue_text :: "((string \<times> jvalue) list \<Rightarrow> string) \<Rightarrow> nat \<Rightarrow> issue \<Rightarrow> string" where
  "issue_text json_dumps i issue =
     ''Issue #'' @ str_nat i @ '': '' @ title (replace_underscores (type issue)) @ [newline] @
     ''Severity: '' @ upper (severity issue) @ [newline] @
     ''Details: '' @ json_dumps (details issue) @ [newline] @
     ''Recommendation: '' @ recommendation issue @ [newline, newline]"

fun report_loop ::
  "((string \<times> jvalue) list \<Rightarrow> string) \<Rightarrow> nat \<Rightarrow> issue list \<Rightarrow> string \<Rightarrow> string" where
  "report_loop json_dumps i [] report = report"
| "report_loop json_dumps i (issue # rest) report =
     report_loop json_dumps (Suc i) rest (report @ issue_text json_dumps i issue)"

definition generate_report ::
  "(instant \<Rightarrow> string) \<Rightarrow> ((string \<times> jvalue) list \<Rightarrow> string) \<Rightarrow> instant \<Rightarrow> detector
     \<Rightarrow> issue list \<Rightarrow> string \<times> detector" where
  "generate_report strftime json_dumps now self issues =
     (if issues = [] then (''No critical issues detected. All systems normal.'', self)
      else
        (report_loop json_dumps 1 issues
           (''CRITICAL ISSUE REPORT - '' @ strftime now @ [newline] @
            replicate 50 (CHR ''='') @ [newline, newline]),
         self))"

subsection \<open>Notions of the specification\<close>

text \<open>
  The predicates below are written from the words of the specification, to be compared
  with what the methods compute.

  An observation sequence is well formed when no timestamp is an unparsable string.
\<close>

definition well_formed :: "observation list \<Rightarrow> bool" where
  "well_formed obs = list_all (\<lambda>e. timestamp e \<noteq> Unparsable) obs"

text \<open>
  An observation lies within \<open>d\<close> minutes of \<open>now\<close> when it is not older than \<open>d\<close> minutes,
  counted in microseconds. An observation without a timestamp counts as made at \<open>now\<close>; one
  stamped later than \<open>now\<close> is not older than \<open>d\<close> minutes either.
\<close>

definition within_minutes :: "instant \<Rightarrow> int \<Rightarrow> observation \<Rightarrow> bool" where
  "within_minutes now d e =
     (case timestamp e of
        Absent \<Rightarrow> True
      | Parsed t \<Rightarrow> now - t \<le> d * 60000000
      | Unparsable \<Rightarrow> False)"

definition window :: "instant \<Rightarrow> int \<Rightarrow> observation list \<Rightarrow> observation list" where
  "window now d obs = filter (within_minutes now d) obs"

text \<open>Label among the given ones and confidence, zero when absent, at least the cutoff.\<close>

definition labelled_with :: "string list \<Rightarrow> real \<Rightarrow> observation \<Rightarrow> bool" where
  "labelled_with labels cutoff e =
     ((case dominant_emotion e of None \<Rightarrow> False | Some l \<Rightarrow> l \<in> set labels)
      \<and> (case confidence e of None \<Rightarrow> False | Some c \<Rightarrow> cutoff \<le> c))"

definition negative_count :: "observation list \<Rightarrow> nat" where
  "negative_count es = length (filter (labelled_with [''sad'', ''angry'', ''fearful''] (7 / 10)) es)"

definition extreme_count :: "observation list \<Rightarrow> nat" where
  "extreme_count es = length (filter (labelled_with [''angry'', ''fearful''] (9 / 10)) es)"

text \<open>The adjacent pairs of a sequence whose two labels differ.\<close>

definition label_changes :: "observation list \<Rightarrow> nat" where
  "label_changes es =
     length (filter (\<lambda>(a, b). dominant_emotion a \<noteq> dominant_emotion b) (zip es (tl es)))"

text \<open>An observation carries a label: the key is present and its string is not empty.\<close>

definition has_label :: "observation \<Rightarrow> bool" where
  "has_label e = (case dominant_emotion e of None \<Rightarrow> False | Some l \<Rightarrow> l \<noteq> [])"

text \<open>The entries that the logging loop writes for a list of issues, from position \<open>k\<close> on.\<close>

fun logged :: "(nat \<Rightarrow> instant) \<Rightarrow> nat \<Rightarrow> issue list \<Rightarrow> history_entry list" where
  "logged reading k [] = []"
| "logged reading k (i # rest) =
     \<lparr>h_timestamp = reading k, h_issue_type = type i, h_severity = severity i,
      h_details = details i\<rparr> # logged reading (Suc k) rest"

text \<open>The issues of one kind in a list of issues.\<close>

definition of_type :: "string \<Rightarrow> issue list \<Rightarrow> issue list" where
  "of_type ty issues = filter (\<lambda>i. type i = ty) issues"

text \<open>
  The leading line of a report, which carries the current time, and the text of the issues
  of a report, numbered from 1.
\<close>

definition timestamp_line :: "(instant \<Rightarrow> string) \<Rightarrow> instant \<Rightarrow> issue list \<Rightarrow> string" where
  "timestamp_line strftime now issues =
     (if issues = [] then [] else ''CRITICAL ISSUE REPORT - '' @ strftime now @ [newline])"

fun rendered_issues ::
  "((string \<times> jvalue) list \<Rightarrow> string) \<Rightarrow> nat \<Rightarrow> issue list \<Rightarrow> string" where
  "rendered_issues json_dumps i [] = []"
| "rendered_issues json_dumps i (issue # rest) =
     issue_text json_dumps i issue @ rendered_issues json_dumps (Suc i) rest"

section \<open>Auxiliary facts\<close>

subsection \<open>The window of a rule\<close>

text \<open>
  On a well-formed sequence the list comprehension of a rule computes the window of the
  specification; on any other sequence it raises.
\<close>

lemma recent_emotions_well_formed:
  "0 \<le> d \<Longrightarrow> well_formed obs \<Longrightarrow> recent_emotions now d obs = Inr (window now d obs)"
  by (induction obs)
     (auto simp: well_formed_def window_def within_minutes_def observed_at_def minutes_between_def
           split: timestamp_field.splits)

lemma recent_emotions_malformed:
  "\<not> well_formed obs \<Longrightarrow> recent_emotions now d obs = Inl ValueError"
  by (induction obs)
     (auto simp: well_formed_def observed_at_def split: timestamp_field.splits sum.splits)

lemma labelled_with_code:
  "0 < cutoff \<Longrightarrow> (emotion_in e labels \<and> cutoff \<le> get_confidence e) = labelled_with labels cutoff e"
  by (auto simp: emotion_in_def get_confidence_def labelled_with_def split: option.splits)

lemma negative_count_le: "negative_count es \<le> length es"
  by (simp add: negative_count_def)

lemma seven_tenths: "(0.7 * real n \<le> real m) = (7 * n \<le> 10 * m)"
proof -
  have "(0.7 * real n \<le> real m) = (real (7 * n) \<le> real (10 * m))"
    by (simp add: mult.commute)
  then show ?thesis by (simp only: of_nat_le_iff)
qed

lemma percentage_bound:
  fixes m n :: nat
  assumes "0 < n" and "m \<le> n"
  shows "real m / real n * 100 \<le> 100"
proof -
  have "real m / real n \<le> 1"
    using assms by simp
  then have "real m / real n * 100 \<le> 1 * 100"
    by (rule mult_right_mono) simp
  then show ?thesis by simp
qed

subsection \<open>Counting the changes of label\<close>

lemma count_emotion_changes_acc:
  "count_emotion_changes n prev es = n + count_emotion_changes 0 prev es"
proof (induction es arbitrary: n prev)
  case Nil
  show ?case by simp
next
  case (Cons e es)
  show ?case
    using Cons.IH [of "n + 1" "dominant_emotion e"] Cons.IH [of "1" "dominant_emotion e"]
          Cons.IH [of n "dominant_emotion e"]
    by (simp add: Let_def)
qed

lemma count_emotion_changes_labelled:
  "list_all has_label es \<Longrightarrow> has_label p \<Longrightarrow>
   count_emotion_changes 0 (dominant_emotion p) es = label_changes (p # es)"
proof (induction es arbitrary: p)
  case Nil
  show ?case by (simp add: label_changes_def)
next
  case (Cons e es)
  have t: "truthy (dominant_emotion p)"
    using Cons.prems(2) by (simp add: has_label_def truthy_def split: option.splits)
  have ih: "count_emotion_changes 0 (dominant_emotion e) es = label_changes (e # es)"
    using Cons.IH [of e] Cons.prems(1) by simp
  show ?case
    using t ih count_emotion_changes_acc [of 1 "dominant_emotion e" es]
    by (auto simp: Let_def label_changes_def)
qed

lemma count_emotion_changes_start:
  "list_all has_label es \<Longrightarrow> count_emotion_changes 0 None es = label_changes es"
proof (cases es)
  case Nil
  then show ?thesis by (simp add: label_changes_def)
next
  case (Cons e rest)
  assume "list_all has_label es"
  with Cons have "list_all has_label rest" "has_label e" by simp_all
  then have "count_emotion_changes 0 (dominant_emotion e) rest = label_changes (e # rest)"
    by (rule count_emotion_changes_labelled)
  with Cons show ?thesis by (simp add: Let_def truthy_def)
qed

lemma label_changes_le: "label_changes es \<le> length es - 1"
proof -
  have "label_changes es \<le> length (zip es (tl es))"
    unfolding label_changes_def by (rule length_filter_le)
  then show ?thesis by simp
qed

text \<open>
  Where a label is missing the loop and the count of adjacent pairs part: the loop does not
  count the step from a missing label to a present one.
\<close>

lemma count_emotion_changes_missing_label:
  "count_emotion_changes 0 None
     [\<lparr>timestamp = Absent, dominant_emotion = Some ''happy'', confidence = None\<rparr>,
      \<lparr>timestamp = Absent, dominant_emotion = None, confidence = None\<rparr>,
      \<lparr>timestamp = Absent, dominant_emotion = Some ''happy'', confidence = None\<rparr>] = 1
   \<and> label_changes
     [\<lparr>timestamp = Absent, dominant_emotion = Some ''happy'', confidence = None\<rparr>,
      \<lparr>timestamp = Absent, dominant_emotion = None, confidence = None\<rparr>,
      \<lparr>timestamp = Absent, dominant_emotion = Some ''happy'', confidence = None\<rparr>] = 2"
  by (simp add: truthy_def label_changes_def)

lemma upto_16: "[0 ..< 16] = [0, 1, 2, 3, 4, 5, 6, 7, 8, 9, 10, 11, 12, 13, 14, 15 :: nat]"
  by code_simp

subsection \<open>What each rule returns\<close>

lemma sustained_rule:
  assumes "well_formed obs" and "critical_thresholds self = critical_thresholds init"
  shows "check_sustained_negative_emotion self now obs =
           Inr (if 5 \<le> length obs \<and> 3 \<le> length (window now 15 obs)
                   \<and> 7 * length (window now 15 obs) \<le> 10 * negative_count (window now 15 obs)
                then Some
                  \<lparr>type = ''sustained_negative_emotion'',
                   severity = ''high'',
                   details =
                     [(''emotion'', emotion_value (last (window now 15 obs))),
                      (''duration_minutes'', JInt 15),
                      (''negative_percentage'',
                         JFloat (real (negative_count (window now 15 obs))
                                   / real (length (window now 15 obs)) * 100))],
                   recommendation =
                     ''Immediate psychological support recommended. Consider ground control notification.''\<rparr>
                else None)"
proof -
  have r: "recent_emotions now 15 obs = Inr (window now 15 obs)"
    using assms(1) by (simp add: recent_emotions_well_formed)
  have c: "length (filter (\<lambda>e. emotion_in e [''sad'', ''angry'', ''fearful'']
                                  \<and> 7 / 10 \<le> get_confidence e) W) = negative_count W" for W
    unfolding negative_count_def using labelled_with_code [of "7 / 10" _ "[''sad'', ''angry'', ''fearful'']"]
    by simp
  have a: "(real (length W) * 7 \<le> real n * 10) = (7 * length W \<le> 10 * n)" for W :: "observation list" and n :: nat
  proof -
    have "(real (length W) * 7 \<le> real n * 10) = (real (7 * length W) \<le> real (10 * n))"
      by (simp add: mult.commute)
    then show ?thesis by (simp only: of_nat_le_iff)
  qed
  show ?thesis
    using r c a
    by (simp add: check_sustained_negative_emotion_def assms(2) init_def Let_def not_less)
qed

lemma sustained_rule_malformed:
  "\<not> well_formed obs \<Longrightarrow>
   check_sustained_negative_emotion self now obs
     = (if length obs < 5 then Inr None else Inl ValueError)"
  by (simp add: check_sustained_negative_emotion_def Let_def recent_emotions_malformed)

lemma sustained_rule_type:
  "check_sustained_negative_emotion self now obs = Inr (Some i) \<Longrightarrow> type i = ''sustained_negative_emotion''"
  by (auto simp: check_sustained_negative_emotion_def Let_def split: if_splits sum.splits)

lemma sustained_rule_returns:
  "well_formed obs \<Longrightarrow> critical_thresholds self = critical_thresholds init \<Longrightarrow>
   \<exists>r. check_sustained_negative_emotion self now obs = Inr r"
  by (simp add: sustained_rule)

lemma swings_rule:
  assumes "well_formed obs" and "list_all has_label obs"
    and "critical_thresholds self = critical_thresholds init"
  shows "check_rapid_emotion_swings self now obs =
           Inr (if 3 \<le> length (window now 5 obs) \<and> 15 \<le> label_changes (window now 5 obs)
                then Some
                  \<lparr>type = ''rapid_emotion_swings'',
                   severity = ''medium'',
                   details =
                     [(''swings_detected'', JInt (int (label_changes (window now 5 obs)))),
                      (''time_window_minutes'', JInt 5)],
                   recommendation = ''Monitor closely. May indicate stress or instability.''\<rparr>
                else None)"
proof -
  let ?W = "window now 5 obs"
  have r: "recent_emotions now 5 obs = Inr ?W"
    using assms(1) by (simp add: recent_emotions_well_formed)
  have "list_all has_label ?W"
    using assms(2) by (simp add: window_def list_all_iff)
  then have c: "count_emotion_changes 0 None ?W = label_changes ?W"
    by (rule count_emotion_changes_start)
  have "length ?W \<le> length obs"
    by (simp add: window_def)
  moreover have "label_changes ?W \<le> length ?W - 1"
    by (rule label_changes_le)
  ultimately have short: "length obs < 5 \<Longrightarrow> label_changes ?W < 15"
    by linarith
  have a: "(15 \<le> int n) = (15 \<le> n)" for n :: nat
    by linarith
  show ?thesis
  proof (cases "length obs < 5")
    case True
    with short show ?thesis
      by (simp add: check_rapid_emotion_swings_def)
  next
    case False
    then show ?thesis
      using r c a
      by (simp add: check_rapid_emotion_swings_def assms(3) init_def Let_def not_less)
  qed
qed

lemma swings_rule_malformed:
  "\<not> well_formed obs \<Longrightarrow>
   check_rapid_emotion_swings self now obs
     = (if length obs < 5 then Inr None else Inl ValueError)"
  by (simp add: check_rapid_emotion_swings_def Let_def recent_emotions_malformed)

lemma swings_rule_type:
  "check_rapid_emotion_swings self now obs = Inr (Some i) \<Longrightarrow> type i = ''rapid_emotion_swings''"
  by (auto simp: check_rapid_emotion_swings_def Let_def split: if_splits sum.splits)

lemma swings_rule_returns:
  "well_formed obs \<Longrightarrow> critical_thresholds self = critical_thresholds init \<Longrightarrow>
   \<exists>r. check_rapid_emotion_swings self now obs = Inr r"
  by (simp add: check_rapid_emotion_swings_def Let_def init_def recent_emotions_well_formed)

lemma extreme_rule:
  assumes "well_formed obs" and "critical_thresholds self = critical_thresholds init"
  shows "check_extreme_emotion self now obs =
           Inr (if 2 \<le> extreme_count (window now 5 obs)
                then Some
                  \<lparr>type = ''extreme_emotion'',
                   severity = ''high'',
                   details =
                     [(''emotion'', emotion_value (last (window now 5 obs))),
                      (''confidence'', confidence_value (last (window now 5 obs))),
                      (''occurrences'', JInt (int (extreme_count (window now 5 obs))))],
                   recommendation =
                     ''Immediate attention required. Consider ground control notification.''\<rparr>
                else None)"
proof -
  let ?W = "window now 5 obs"
  have r: "recent_emotions now 5 obs = Inr ?W"
    using assms(1) by (simp add: recent_emotions_well_formed)
  have c: "length (filter (\<lambda>e. emotion_in e [''angry'', ''fearful'']
                                  \<and> 9 / 10 \<le> get_confidence e) W) = extreme_count W" for W
    unfolding extreme_count_def using labelled_with_code [of "9 / 10" _ "[''angry'', ''fearful'']"]
    by simp
  have e: "extreme_count [] = 0"
    by (simp add: extreme_count_def)
  have w: "obs = [] \<Longrightarrow> ?W = []"
    by (simp add: window_def)
  show ?thesis
    using r c e w
    by (auto simp: check_extreme_emotion_def assms(2) init_def Let_def)
qed

lemma extreme_rule_malformed:
  "\<not> well_formed obs \<Longrightarrow> check_extreme_emotion self now obs = Inl ValueError"
proof -
  assume m: "\<not> well_formed obs"
  then have "obs \<noteq> []"
    by (auto simp: well_formed_def)
  with m show ?thesis
    by (simp add: check_extreme_emotion_def Let_def recent_emotions_malformed)
qed

lemma extreme_rule_type:
  "check_extreme_emotion self now obs = Inr (Some i) \<Longrightarrow> type i = ''extreme_emotion''"
  by (auto simp: check_extreme_emotion_def Let_def split: if_splits sum.splits)

lemma extreme_rule_returns:
  "well_formed obs \<Longrightarrow> critical_thresholds self = critical_thresholds init \<Longrightarrow>
   \<exists>r. check_extreme_emotion self now obs = Inr r"
  by (simp add: extreme_rule)

lemma breakdown_rule:
  assumes "critical_thresholds self = critical_thresholds init"
  shows "check_communication_breakdown self now (Some t) =
           (if 30 * 60000000 \<le> now - t
            then Some
              \<lparr>type = ''communication_breakdown'',
               severity = ''high'',
               details = [(''minutes_since_last_interaction'', JFloat (minutes_between now t))],
               recommendation =
                 ''Attempt to re-establish communication. If unsuccessful, notify ground control.''\<rparr>
            else None)"
proof -
  have "(30 \<le> minutes_between now t) = (30 * 60000000 \<le> now - t)"
    by (simp add: minutes_between_def) linarith
  then show ?thesis
    by (simp add: check_communication_breakdown_def assms init_def Let_def)
qed

subsection \<open>What a call of \<^verbatim>\<open>check_critical_issues\<close> returns and logs\<close>

lemma check_returns:
  assumes "check_sustained_negative_emotion self (now_sustained clk) obs = Inr s"
    and "check_rapid_emotion_swings self (now_swings clk) obs = Inr w"
    and "check_extreme_emotion self (now_extreme clk) obs = Inr e"
  shows "fst (check_critical_issues clk self obs audio li) =
           Inr (append_if s @ append_if w @ append_if e @
                (case li of
                   None \<Rightarrow> []
                 | Some t \<Rightarrow> append_if (check_communication_breakdown self (now_breakdown clk) (Some t))))"
  by (simp add: check_critical_issues_def assms Let_def)

lemma of_type_append: "of_type ty (xs @ ys) = of_type ty xs @ of_type ty ys"
  by (simp add: of_type_def)

lemma of_type_rule:
  "(\<And>i. x = Some i \<Longrightarrow> type i = ty') \<Longrightarrow> of_type ty (append_if x) = (if ty = ty' then append_if x else [])"
  by (cases x) (auto simp: of_type_def append_if_def)

lemma emotion_rules_raise_no_breakdown:
  assumes "check_sustained_negative_emotion self now1 obs = Inr s"
    and "check_rapid_emotion_swings self now2 obs = Inr w"
    and "check_extreme_emotion self now3 obs = Inr e"
  shows "of_type ''communication_breakdown'' (append_if s @ append_if w @ append_if e) = []"
proof -
  have "of_type ''communication_breakdown'' (append_if s) = []"
    using sustained_rule_type [of self now1 obs] assms(1)
    by (subst of_type_rule [where ty' = "''sustained_negative_emotion''"]) simp_all
  moreover have "of_type ''communication_breakdown'' (append_if w) = []"
    using swings_rule_type [of self now2 obs] assms(2)
    by (subst of_type_rule [where ty' = "''rapid_emotion_swings''"]) simp_all
  moreover have "of_type ''communication_breakdown'' (append_if e) = []"
    using extreme_rule_type [of self now3 obs] assms(3)
    by (subst of_type_rule [where ty' = "''extreme_emotion''"]) simp_all
  ultimately show ?thesis
    by (simp add: of_type_append)
qed

lemma log_issues_history:
  "issue_history (log_issues reading k issues self) = issue_history self @ logged reading k issues"
  by (induction issues arbitrary: k self) simp_all

lemma log_issues_thresholds:
  "critical_thresholds (log_issues reading k issues self) = critical_thresholds self"
  by (induction issues arbitrary: k self) simp_all

lemma logged_length: "length (logged reading k issues) = length issues"
  by (induction issues arbitrary: k) simp_all

lemma logged_fields:
  "map h_issue_type (logged reading k issues) = map type issues
   \<and> map h_severity (logged reading k issues) = map severity issues
   \<and> map h_details (logged reading k issues) = map details issues
   \<and> map h_timestamp (logged reading k issues) = map reading [k ..< k + length issues]"
proof (induction issues arbitrary: k)
  case Nil
  show ?case by simp
next
  case (Cons i rest)
  have "[k ..< k + length (i # rest)] = k # [Suc k ..< Suc k + length rest]"
    by (subst upt_conv_Cons) simp_all
  with Cons [of "Suc k"] show ?case by simp
qed

lemma rules_read_thresholds_only:
  assumes "critical_thresholds self' = critical_thresholds self"
  shows "check_sustained_negative_emotion self' now obs = check_sustained_negative_emotion self now obs"
    and "check_rapid_emotion_swings self' now obs = check_rapid_emotion_swings self now obs"
    and "check_extreme_emotion self' now obs = check_extreme_emotion self now obs"
    and "check_communication_breakdown self' now li = check_communication_breakdown self now li"
  by (simp_all add: assms check_sustained_negative_emotion_def check_rapid_emotion_swings_def
        check_extreme_emotion_def check_communication_breakdown_def)

lemma check_result_thresholds_only:
  assumes "critical_thresholds self' = critical_thresholds self"
  shows "fst (check_critical_issues clk self' obs audio li) = fst (check_critical_issues clk self obs audio li)"
  by (simp add: check_critical_issues_def rules_read_thresholds_only [OF assms] Let_def
           split: sum.splits option.splits)

lemma check_keeps_thresholds:
  "critical_thresholds (snd (check_critical_issues clk self obs audio li)) = critical_thresholds self"
  by (simp add: check_critical_issues_def Let_def log_issues_thresholds split: sum.splits)

lemma check_history:
  "issue_history (snd (check_critical_issues clk self obs audio li)) =
     issue_history self @
       logged (now_log clk) 0
         (case fst (check_critical_issues clk self obs audio li) of
            Inl err \<Rightarrow> [] | Inr issues \<Rightarrow> issues)"
  by (simp add: check_critical_issues_def Let_def log_issues_history split: sum.splits)

subsection \<open>The look-back and the report\<close>

lemma timedelta_hours_in_range:
  assumes "valid_datetime now" and "valid_datetime (now - hours * 3600000000)"
  shows "timedelta_hours hours = Inr (hours * 3600000000)"
proof -
  let ?us = "hours * 3600000000"
  have "- datetime_max \<le> ?us" and "?us \<le> datetime_max"
    using assms by (simp_all add: valid_datetime_def)
  then have "- 315537897600000000 \<le> ?us" and "?us \<le> 315537897600000000"
    by (simp_all add: datetime_max_def)
  then have "- 999999999 \<le> ?us div 86400000000" and "?us div 86400000000 \<le> 999999999"
    by linarith+
  then show ?thesis
    by (simp add: timedelta_hours_def Let_def)
qed

lemma get_issue_history_out_of_range:
  assumes "valid_datetime now" and "\<not> valid_datetime (now - hours * 3600000000)"
  shows "get_issue_history now self hours = (Inl OverflowError, self)"
  using assms(2)
  by (simp add: get_issue_history_def timedelta_hours_def datetime_minus_def Let_def)

lemma report_loop_append:
  "report_loop json_dumps i issues report = report @ report_loop json_dumps i issues []"
proof (induction issues arbitrary: i report)
  case Nil
  show ?case by simp
next
  case (Cons x xs)
  show ?case
    using Cons.IH [of "Suc i" "report @ issue_text json_dumps i x"]
          Cons.IH [of "Suc i" "issue_text json_dumps i x"]
    by simp
qed

lemma report_loop_rendered:
  "report_loop json_dumps i issues [] = rendered_issues json_dumps i issues"
proof (induction issues arbitrary: i)
  case Nil
  show ?case by simp
next
  case (Cons x xs)
  show ?case
    using Cons [of "Suc i"] report_loop_append [of json_dumps "Suc i" xs "issue_text json_dumps i x"]
    by simp
qed

lemma generate_report_text:
  "fst (generate_report strftime json_dumps now self issues) =
     (if issues = [] then ''No critical issues detected. All systems normal.''
      else timestamp_line strftime now issues @ replicate 50 (CHR ''='') @ [newline, newline]
             @ rendered_issues json_dumps 1 issues)"
proof (cases "issues = []")
  case True
  then show ?thesis by (simp add: generate_report_def)
next
  case False
  have "report_loop json_dumps 1 issues r = r @ rendered_issues json_dumps 1 issues" for r
    using report_loop_append [of json_dumps 1 issues r] report_loop_rendered [of json_dumps 1 issues]
    by simp
  with False show ?thesis
    by (simp add: generate_report_def timestamp_line_def)
qed

section \<open>The claims\<close>

subsection \<open>C1: unparsable timestamps\<close>

text \<open>
  Claim C1, as the specification states it, fails: a timestamp that does not parse is not
  skipped. Here five observations made within the last ten minutes, all \<^verbatim>\<open>sad\<close> with
  confidence 0.8, are followed by one whose timestamp does not parse; the call does not
  return a list of issues, it raises \<^verbatim>\<open>ValueError\<close>.
\<close>

theorem unparsable_timestamp_counterexample:
  "fst (check_critical_issues
          \<lparr>now_sustained = 63900000000000000, now_swings = 63900000000000000,
           now_extreme = 63900000000000000, now_breakdown = 63900000000000000,
           now_log = (\<lambda>k. 63900000000000000)\<rparr>
          init
          [\<lparr>timestamp = Parsed 63899999400000000, dominant_emotion = Some ''sad'', confidence = Some 0.8\<rparr>,
           \<lparr>timestamp = Parsed 63899999520000000, dominant_emotion = Some ''sad'', confidence = Some 0.8\<rparr>,
           \<lparr>timestamp = Parsed 63899999640000000, dominant_emotion = Some ''sad'', confidence = Some 0.8\<rparr>,
           \<lparr>timestamp = Parsed 63899999760000000, dominant_emotion = Some ''sad'', confidence = Some 0.8\<rparr>,
           \<lparr>timestamp = Parsed 63899999880000000, dominant_emotion = Some ''sad'', confidence = Some 0.8\<rparr>,
           \<lparr>timestamp = Unparsable, dominant_emotion = Some ''sad'', confidence = Some 0.8\<rparr>]
          None None)
     = Inl ValueError"
  by (simp add: check_critical_issues_def check_sustained_negative_emotion_def init_def
        observed_at_def Let_def)

text \<open>
  Claim C1, amended. Whenever the observation sequence holds an observation whose timestamp
  does not parse, \<^verbatim>\<open>check_critical_issues\<close> raises \<^verbatim>\<open>ValueError\<close>: it returns no issue and
  leaves the detector, and with it \<^verbatim>\<open>issue_history\<close>, as it was.
\<close>

theorem unparsable_timestamp_aborts:
  assumes "\<not> well_formed obs"
  shows "check_critical_issues clk self obs audio li = (Inl ValueError, self)"
proof (cases "length obs < 5")
  case True
  then show ?thesis
    using assms
    by (simp add: check_critical_issues_def sustained_rule_malformed swings_rule_malformed
          extreme_rule_malformed)
next
  case False
  then show ?thesis
    using assms
    by (simp add: check_critical_issues_def sustained_rule_malformed)
qed

text \<open>Two observations, the second with an unparsable timestamp.\<close>

theorem unparsable_timestamp_aborts_witness:
  "\<not> well_formed
     [\<lparr>timestamp = Parsed 63899999880000000, dominant_emotion = Some ''happy'', confidence = Some 0.9\<rparr>,
      \<lparr>timestamp = Unparsable, dominant_emotion = Some ''happy'', confidence = Some 0.9\<rparr>]
   \<and> check_critical_issues
        \<lparr>now_sustained = 63900000000000000, now_swings = 63900000000000000,
         now_extreme = 63900000000000000, now_breakdown = 63900000000000000,
         now_log = (\<lambda>k. 63900000000000000)\<rparr>
        init
        [\<lparr>timestamp = Parsed 63899999880000000, dominant_emotion = Some ''happy'', confidence = Some 0.9\<rparr>,
         \<lparr>timestamp = Unparsable, dominant_emotion = Some ''happy'', confidence = Some 0.9\<rparr>]
        None None
      = (Inl ValueError, init)"
  using unparsable_timestamp_aborts [of
    "[\<lparr>timestamp = Parsed 63899999880000000, dominant_emotion = Some ''happy'', confidence = Some 0.9\<rparr>,
      \<lparr>timestamp = Unparsable, dominant_emotion = Some ''happy'', confidence = Some 0.9\<rparr>]"
    "\<lparr>now_sustained = 63900000000000000, now_swings = 63900000000000000,
      now_extreme = 63900000000000000, now_breakdown = 63900000000000000,
      now_log = (\<lambda>k. 63900000000000000)\<rparr>"
    init None None]
  by (simp add: well_formed_def)

subsection \<open>C2: neutral observations\<close>

text \<open>
  Claim C2, as the specification states it, fails when the last interaction is old: the
  communication rule does not look at the observations. Here one observation, \<^verbatim>\<open>neutral\<close>
  with confidence 1.0, and a last interaction 31 minutes before \<open>now\<close>: the call returns a
  \<^verbatim>\<open>communication_breakdown\<close> issue.
\<close>

theorem neutral_observations_counterexample:
  "fst (check_critical_issues
          \<lparr>now_sustained = 63900000000000000, now_swings = 63900000000000000,
           now_extreme = 63900000000000000, now_breakdown = 63900000000000000,
           now_log = (\<lambda>k. 63900000000000000)\<rparr>
          init
          [\<lparr>timestamp = Parsed 63899999880000000, dominant_emotion = Some ''neutral'', confidence = Some 1\<rparr>]
          None (Some 63899998140000000))
     = Inr [\<lparr>type = ''communication_breakdown'',
             severity = ''high'',
             details = [(''minutes_since_last_interaction'', JFloat 31)],
             recommendation =
               ''Attempt to re-establish communication. If unsuccessful, notify ground control.''\<rparr>]"
  by (simp add: check_critical_issues_def check_sustained_negative_emotion_def
        check_rapid_emotion_swings_def check_extreme_emotion_def check_communication_breakdown_def
        init_def observed_at_def minutes_between_def emotion_in_def get_confidence_def
        append_if_def Let_def)

text \<open>
  Claim C2, amended. On a well-formed observation sequence in which every observation has
  the label \<^verbatim>\<open>neutral\<close> and confidence 1.0, none of the three emotion rules raises an issue:
  \<^verbatim>\<open>check_critical_issues\<close> returns the empty sequence when \<^verbatim>\<open>last_interaction\<close> is absent or
  less than 30 minutes old, and the \<^verbatim>\<open>communication_breakdown\<close> issue alone when it is 30
  minutes old or more.
\<close>

theorem neutral_observations:
  assumes "well_formed obs"
    and "list_all (\<lambda>e. dominant_emotion e = Some ''neutral'' \<and> confidence e = Some 1) obs"
  shows "fst (check_critical_issues clk (init\<lparr>issue_history := h\<rparr>) obs audio li) =
           Inr (case li of
                  None \<Rightarrow> []
                | Some t \<Rightarrow>
                    if 30 * 60000000 \<le> now_breakdown clk - t
                    then [\<lparr>type = ''communication_breakdown'',
                           severity = ''high'',
                           details =
                             [(''minutes_since_last_interaction'',
                               JFloat (minutes_between (now_breakdown clk) t))],
                           recommendation =
                             ''Attempt to re-establish communication. If unsuccessful, notify ground control.''\<rparr>]
                    else [])"
proof -
  let ?D = "init\<lparr>issue_history := h\<rparr>"
  have th: "critical_thresholds ?D = critical_thresholds init"
    by simp
  have neutral: "dominant_emotion e = Some ''neutral''" if "e \<in> set obs" for e
    using assms(2) that by (simp add: list_all_iff)
  have labels: "list_all has_label obs"
    using neutral by (simp add: list_all_iff has_label_def)
  have in_window: "e \<in> set obs" if "e \<in> set (window now d obs)" for e now d
    using that by (simp add: window_def)
  have "negative_count (window now d obs) = 0" for now d
    using neutral in_window [of _ now d] by (auto simp: negative_count_def labelled_with_def)
  then have s: "check_sustained_negative_emotion ?D (now_sustained clk) obs = Inr None"
    by (auto simp: sustained_rule [OF assms(1) th])
  have "extreme_count (window now d obs) = 0" for now d
    using neutral in_window [of _ now d] by (auto simp: extreme_count_def labelled_with_def)
  then have e: "check_extreme_emotion ?D (now_extreme clk) obs = Inr None"
    by (simp add: extreme_rule [OF assms(1) th])
  have "label_changes (window now d obs) = 0" for now d
  proof -
    have "dominant_emotion a = dominant_emotion b"
      if "(a, b) \<in> set (zip (window now d obs) (tl (window now d obs)))" for a b
    proof -
      have "a \<in> set (window now d obs)"
        using that by (rule set_zip_leftD)
      moreover have "b \<in> set (tl (window now d obs))"
        using that by (rule set_zip_rightD)
      then have "b \<in> set (window now d obs)"
        by (cases "window now d obs") auto
      ultimately show ?thesis
        using neutral in_window [of _ now d] by simp
    qed
    then show ?thesis
      by (auto simp: label_changes_def filter_empty_conv)
  qed
  then have w: "check_rapid_emotion_swings ?D (now_swings clk) obs = Inr None"
    by (simp add: swings_rule [OF assms(1) labels th])
  show ?thesis
    using check_returns [OF s w e, of audio li] breakdown_rule [OF th, of "now_breakdown clk"]
    by (simp add: append_if_def split: option.splits)
qed

text \<open>One neutral observation and a last interaction 29 minutes before \<open>now\<close>: nothing is raised.\<close>

theorem neutral_observations_witness:
  "well_formed
     [\<lparr>timestamp = Parsed 63899999880000000, dominant_emotion = Some ''neutral'', confidence = Some 1\<rparr>]
   \<and> list_all (\<lambda>e. dominant_emotion e = Some ''neutral'' \<and> confidence e = Some 1)
     [\<lparr>timestamp = Parsed 63899999880000000, dominant_emotion = Some ''neutral'', confidence = Some 1\<rparr>]
   \<and> fst (check_critical_issues
            \<lparr>now_sustained = 63900000000000000, now_swings = 63900000000000000,
             now_extreme = 63900000000000000, now_breakdown = 63900000000000000,
             now_log = (\<lambda>k. 63900000000000000)\<rparr>
            (init\<lparr>issue_history := []\<rparr>)
            [\<lparr>timestamp = Parsed 63899999880000000, dominant_emotion = Some ''neutral'', confidence = Some 1\<rparr>]
            None (Some 63899998260000000)) = Inr []"
  using neutral_observations [of
    "[\<lparr>timestamp = Parsed 63899999880000000, dominant_emotion = Some ''neutral'', confidence = Some 1\<rparr>]"
    "\<lparr>now_sustained = 63900000000000000, now_swings = 63900000000000000,
      now_extreme = 63900000000000000, now_breakdown = 63900000000000000,
      now_log = (\<lambda>k. 63900000000000000)\<rparr>"
    "[]" None "Some 63899998260000000"]
  by (simp add: well_formed_def)

subsection \<open>C3: sustained negative emotion\<close>

text \<open>
  Claim C3, as the specification states it, fails on a sequence of fewer than five
  observations: the method returns at once when \<^verbatim>\<open>len(emotion_data) < 5\<close>. Here three
  observations, all within 15 minutes of \<open>now\<close>, all \<^verbatim>\<open>sad\<close> with confidence 0.8, satisfy
  the stated condition (three in the window, all of them negative), and no issue is
  produced.
\<close>

theorem sustained_negative_emotion_counterexample:
  "3 \<le> length (window 63900000000000000 15
     [\<lparr>timestamp = Parsed 63899999640000000, dominant_emotion = Some ''sad'', confidence = Some 0.8\<rparr>,
      \<lparr>timestamp = Parsed 63899999760000000, dominant_emotion = Some ''sad'', confidence = Some 0.8\<rparr>,
      \<lparr>timestamp = Parsed 63899999880000000, dominant_emotion = Some ''sad'', confidence = Some 0.8\<rparr>])
   \<and> 0.7 * real (length (window 63900000000000000 15
     [\<lparr>timestamp = Parsed 63899999640000000, dominant_emotion = Some ''sad'', confidence = Some 0.8\<rparr>,
      \<lparr>timestamp = Parsed 63899999760000000, dominant_emotion = Some ''sad'', confidence = Some 0.8\<rparr>,
      \<lparr>timestamp = Parsed 63899999880000000, dominant_emotion = Some ''sad'', confidence = Some 0.8\<rparr>]))
       \<le> real (negative_count (window 63900000000000000 15
     [\<lparr>timestamp = Parsed 63899999640000000, dominant_emotion = Some ''sad'', confidence = Some 0.8\<rparr>,
      \<lparr>timestamp = Parsed 63899999760000000, dominant_emotion = Some ''sad'', confidence = Some 0.8\<rparr>,
      \<lparr>timestamp = Parsed 63899999880000000, dominant_emotion = Some ''sad'', confidence = Some 0.8\<rparr>]))
   \<and> check_sustained_negative_emotion init 63900000000000000
     [\<lparr>timestamp = Parsed 63899999640000000, dominant_emotion = Some ''sad'', confidence = Some 0.8\<rparr>,
      \<lparr>timestamp = Parsed 63899999760000000, dominant_emotion = Some ''sad'', confidence = Some 0.8\<rparr>,
      \<lparr>timestamp = Parsed 63899999880000000, dominant_emotion = Some ''sad'', confidence = Some 0.8\<rparr>]
     = Inr None"
  by (simp add: window_def within_minutes_def negative_count_def labelled_with_def
        check_sustained_negative_emotion_def)

text \<open>
  Claim C3, amended. On a well-formed observation sequence the rule produces an issue, of
  type \<^verbatim>\<open>sustained_negative_emotion\<close> and severity \<^verbatim>\<open>high\<close>, if and only if the sequence has
  at least 5 observations, at least 3 of them lie within 15 minutes of \<open>now\<close>, and the
  observations in the window with a label among sad, angry, fearful and confidence at least
  0.7 number at least 0.7 times the observations in the window. The details of the issue
  carry the percentage of such observations in the window, a number from 0 to 100.
\<close>

theorem sustained_negative_emotion_iff:
  assumes "well_formed obs"
  shows "check_sustained_negative_emotion (init\<lparr>issue_history := h\<rparr>) now obs =
           Inr (if 5 \<le> length obs \<and> 3 \<le> length (window now 15 obs)
                   \<and> 0.7 * real (length (window now 15 obs)) \<le> real (negative_count (window now 15 obs))
                then Some
                  \<lparr>type = ''sustained_negative_emotion'',
                   severity = ''high'',
                   details =
                     [(''emotion'', emotion_value (last (window now 15 obs))),
                      (''duration_minutes'', JInt 15),
                      (''negative_percentage'',
                         JFloat (real (negative_count (window now 15 obs))
                                   / real (length (window now 15 obs)) * 100))],
                   recommendation =
                     ''Immediate psychological support recommended. Consider ground control notification.''\<rparr>
                else None)
         \<and> (3 \<le> length (window now 15 obs) \<longrightarrow>
              0 \<le> real (negative_count (window now 15 obs)) / real (length (window now 15 obs)) * 100
              \<and> real (negative_count (window now 15 obs)) / real (length (window now 15 obs)) * 100 \<le> 100)"
proof -
  let ?W = "window now 15 obs"
  have "real (negative_count ?W) / real (length ?W) * 100 \<le> 100" if "3 \<le> length ?W"
  proof -
    from that have "0 < length ?W" by linarith
    then show ?thesis using negative_count_le by (rule percentage_bound)
  qed
  then show ?thesis
    using sustained_rule [of obs "init\<lparr>issue_history := h\<rparr>" now] assms
    by (simp only: seven_tenths) simp
qed

text \<open>
  Five observations made 10, 8, 6, 4 and 2 minutes before \<open>now\<close>, all \<^verbatim>\<open>sad\<close> with
  confidence 0.8: the issue is raised with a negative percentage of 100.
\<close>

theorem sustained_negative_emotion_iff_witness:
  "well_formed
     [\<lparr>timestamp = Parsed 63899999400000000, dominant_emotion = Some ''sad'', confidence = Some 0.8\<rparr>,
      \<lparr>timestamp = Parsed 63899999520000000, dominant_emotion = Some ''sad'', confidence = Some 0.8\<rparr>,
      \<lparr>timestamp = Parsed 63899999640000000, dominant_emotion = Some ''sad'', confidence = Some 0.8\<rparr>,
      \<lparr>timestamp = Parsed 63899999760000000, dominant_emotion = Some ''sad'', confidence = Some 0.8\<rparr>,
      \<lparr>timestamp = Parsed 63899999880000000, dominant_emotion = Some ''sad'', confidence = Some 0.8\<rparr>]
   \<and> check_sustained_negative_emotion (init\<lparr>issue_history := []\<rparr>) 63900000000000000
     [\<lparr>timestamp = Parsed 63899999400000000, dominant_emotion = Some ''sad'', confidence = Some 0.8\<rparr>,
      \<lparr>timestamp = Parsed 63899999520000000, dominant_emotion = Some ''sad'', confidence = Some 0.8\<rparr>,
      \<lparr>timestamp = Parsed 63899999640000000, dominant_emotion = Some ''sad'', confidence = Some 0.8\<rparr>,
      \<lparr>timestamp = Parsed 63899999760000000, dominant_emotion = Some ''sad'', confidence = Some 0.8\<rparr>,
      \<lparr>timestamp = Parsed 63899999880000000, dominant_emotion = Some ''sad'', confidence = Some 0.8\<rparr>]
     = Inr (Some
         \<lparr>type = ''sustained_negative_emotion'',
          severity = ''high'',
          details =
            [(''emotion'', JStr ''sad''),
             (''duration_minutes'', JInt 15),
             (''negative_percentage'', JFloat 100)],
          recommendation =
            ''Immediate psychological support recommended. Consider ground control notification.''\<rparr>)"
  using sustained_negative_emotion_iff [of
     "[\<lparr>timestamp = Parsed 63899999400000000, dominant_emotion = Some ''sad'', confidence = Some 0.8\<rparr>,
      \<lparr>timestamp = Parsed 63899999520000000, dominant_emotion = Some ''sad'', confidence = Some 0.8\<rparr>,
      \<lparr>timestamp = Parsed 63899999640000000, dominant_emotion = Some ''sad'', confidence = Some 0.8\<rparr>,
      \<lparr>timestamp = Parsed 63899999760000000, dominant_emotion = Some ''sad'', confidence = Some 0.8\<rparr>,
      \<lparr>timestamp = Parsed 63899999880000000, dominant_emotion = Some ''sad'', confidence = Some 0.8\<rparr>]"
     "[]" 63900000000000000]
  by (simp add: well_formed_def window_def within_minutes_def negative_count_def labelled_with_def
        emotion_value_def)

subsection \<open>C4: extreme emotion\<close>

text \<open>
  Claim C4, as the specification states it, fails when a timestamp does not parse. Here two
  observations made within the last two minutes are \<^verbatim>\<open>angry\<close> with confidence 0.95, so that
  two observations of the window are extreme, and a third observation has an unparsable
  timestamp: the rule raises \<^verbatim>\<open>ValueError\<close> and produces no issue.
\<close>

theorem extreme_emotion_counterexample:
  "2 \<le> extreme_count (window 63900000000000000 5
     [\<lparr>timestamp = Parsed 63899999880000000, dominant_emotion = Some ''angry'', confidence = Some 0.95\<rparr>,
      \<lparr>timestamp = Parsed 63899999940000000, dominant_emotion = Some ''angry'', confidence = Some 0.95\<rparr>,
      \<lparr>timestamp = Unparsable, dominant_emotion = Some ''neutral'', confidence = Some 1\<rparr>])
   \<and> check_extreme_emotion init 63900000000000000
     [\<lparr>timestamp = Parsed 63899999880000000, dominant_emotion = Some ''angry'', confidence = Some 0.95\<rparr>,
      \<lparr>timestamp = Parsed 63899999940000000, dominant_emotion = Some ''angry'', confidence = Some 0.95\<rparr>,
      \<lparr>timestamp = Unparsable, dominant_emotion = Some ''neutral'', confidence = Some 1\<rparr>]
     = Inl ValueError"
  by (simp add: extreme_count_def window_def within_minutes_def labelled_with_def
        check_extreme_emotion_def init_def observed_at_def Let_def)

text \<open>
  Claim C4, amended. On a well-formed observation sequence the rule produces an issue, of type
  \<^verbatim>\<open>extreme_emotion\<close> and severity \<^verbatim>\<open>high\<close>, if and only if at least 2 observations within 5
  minutes of \<open>now\<close> have a label among angry, fearful and confidence at least 0.9. In
  particular, for two observations \<open>a\<close> and \<open>b\<close> within the window, both \<^verbatim>\<open>angry\<close>:
  with confidence 0.95 the call of \<^verbatim>\<open>check_critical_issues\<close> returns exactly one
  \<^verbatim>\<open>extreme_emotion\<close> issue, of severity \<^verbatim>\<open>high\<close>, and with confidence 0.85 it returns none.
\<close>

theorem extreme_emotion_iff:
  assumes "well_formed obs"
  shows "check_extreme_emotion (init\<lparr>issue_history := h\<rparr>) now obs =
           Inr (if 2 \<le> extreme_count (window now 5 obs)
                then Some
                  \<lparr>type = ''extreme_emotion'',
                   severity = ''high'',
                   details =
                     [(''emotion'', emotion_value (last (window now 5 obs))),
                      (''confidence'', confidence_value (last (window now 5 obs))),
                      (''occurrences'', JInt (int (extreme_count (window now 5 obs))))],
                   recommendation =
                     ''Immediate attention required. Consider ground control notification.''\<rparr>
                else None)
         \<and> (within_minutes (now_extreme clk) 5 a \<and> within_minutes (now_extreme clk) 5 b
              \<and> dominant_emotion a = Some ''angry'' \<and> dominant_emotion b = Some ''angry'' \<longrightarrow>
              (confidence a = Some 0.95 \<and> confidence b = Some 0.95 \<longrightarrow>
                 (\<exists>issues x.
                    fst (check_critical_issues clk (init\<lparr>issue_history := h\<rparr>) [a, b] audio li)
                      = Inr issues
                    \<and> of_type ''extreme_emotion'' issues = [x] \<and> severity x = ''high''))
              \<and> (confidence a = Some 0.85 \<and> confidence b = Some 0.85 \<longrightarrow>
                 (\<exists>issues.
                    fst (check_critical_issues clk (init\<lparr>issue_history := h\<rparr>) [a, b] audio li)
                      = Inr issues
                    \<and> of_type ''extreme_emotion'' issues = [])))"
proof -
  let ?D = "init\<lparr>issue_history := h\<rparr>"
  have th: "critical_thresholds ?D = critical_thresholds init"
    by simp
  have general: "check_extreme_emotion ?D now obs =
           Inr (if 2 \<le> extreme_count (window now 5 obs)
                then Some
                  \<lparr>type = ''extreme_emotion'',
                   severity = ''high'',
                   details =
                     [(''emotion'', emotion_value (last (window now 5 obs))),
                      (''confidence'', confidence_value (last (window now 5 obs))),
                      (''occurrences'', JInt (int (extreme_count (window now 5 obs))))],
                   recommendation =
                     ''Immediate attention required. Consider ground control notification.''\<rparr>
                else None)"
    by (rule extreme_rule [OF assms th])
  have pair: "\<exists>issues.
                fst (check_critical_issues clk ?D [a, b] audio li) = Inr issues
                \<and> of_type ''extreme_emotion'' issues =
                    (if 9 / 10 \<le> c
                     then [\<lparr>type = ''extreme_emotion'',
                            severity = ''high'',
                            details =
                              [(''emotion'', JStr ''angry''),
                               (''confidence'', JFloat c),
                               (''occurrences'', JInt 2)],
                            recommendation =
                              ''Immediate attention required. Consider ground control notification.''\<rparr>]
                     else [])"
    if in_a: "within_minutes (now_extreme clk) 5 a" and in_b: "within_minutes (now_extreme clk) 5 b"
      and "dominant_emotion a = Some ''angry''" and "dominant_emotion b = Some ''angry''"
      and "confidence a = Some c" and "confidence b = Some c" for c
  proof -
    have wf: "well_formed [a, b]"
      using in_a in_b by (auto simp: well_formed_def within_minutes_def)
    have s: "check_sustained_negative_emotion ?D (now_sustained clk) [a, b] = Inr None"
      by (simp add: check_sustained_negative_emotion_def)
    have w: "check_rapid_emotion_swings ?D (now_swings clk) [a, b] = Inr None"
      by (simp add: check_rapid_emotion_swings_def)
    have win: "window (now_extreme clk) 5 [a, b] = [a, b]"
      using in_a in_b by (simp add: window_def)
    have cnt: "extreme_count [a, b] = (if 9 / 10 \<le> c then 2 else 0)"
      using that by (simp add: extreme_count_def labelled_with_def)
    have e: "check_extreme_emotion ?D (now_extreme clk) [a, b] =
               Inr (if 9 / 10 \<le> c
                    then Some
                      \<lparr>type = ''extreme_emotion'',
                       severity = ''high'',
                       details =
                         [(''emotion'', JStr ''angry''),
                          (''confidence'', JFloat c),
                          (''occurrences'', JInt 2)],
                       recommendation =
                         ''Immediate attention required. Consider ground control notification.''\<rparr>
                    else None)"
      using that by (simp add: extreme_rule [OF wf th] win cnt emotion_value_def confidence_value_def)
    have b: "of_type ''extreme_emotion''
               (case li of
                  None \<Rightarrow> []
                | Some t \<Rightarrow> append_if (check_communication_breakdown ?D (now_breakdown clk) (Some t))) = []"
      by (simp add: breakdown_rule [OF th] of_type_def append_if_def split: option.splits)
    show ?thesis
      using check_returns [OF s w e, of audio li] b
      by (simp add: of_type_append) (simp add: of_type_def append_if_def)
  qed
  show ?thesis
    using general pair [of "0.95"] pair [of "0.85"] by auto
qed

text \<open>Two \<^verbatim>\<open>angry\<close> observations with confidence 0.95, made 2 and 1 minutes before \<open>now\<close>.\<close>

theorem extreme_emotion_iff_witness:
  "well_formed
     [\<lparr>timestamp = Parsed 63899999880000000, dominant_emotion = Some ''angry'', confidence = Some 0.95\<rparr>,
      \<lparr>timestamp = Parsed 63899999940000000, dominant_emotion = Some ''angry'', confidence = Some 0.95\<rparr>]
   \<and> check_extreme_emotion (init\<lparr>issue_history := []\<rparr>) 63900000000000000
        [\<lparr>timestamp = Parsed 63899999880000000, dominant_emotion = Some ''angry'', confidence = Some 0.95\<rparr>,
         \<lparr>timestamp = Parsed 63899999940000000, dominant_emotion = Some ''angry'', confidence = Some 0.95\<rparr>]
      = Inr (Some
          \<lparr>type = ''extreme_emotion'',
           severity = ''high'',
           details =
             [(''emotion'', JStr ''angry''),
              (''confidence'', JFloat 0.95),
              (''occurrences'', JInt 2)],
           recommendation =
             ''Immediate attention required. Consider ground control notification.''\<rparr>)
   \<and> (\<exists>issues x.
         fst (check_critical_issues
                \<lparr>now_sustained = 63900000000000000, now_swings = 63900000000000000,
                 now_extreme = 63900000000000000, now_breakdown = 63900000000000000,
                 now_log = (\<lambda>k. 63900000000000000)\<rparr>
                (init\<lparr>issue_history := []\<rparr>)
                [\<lparr>timestamp = Parsed 63899999880000000, dominant_emotion = Some ''angry'', confidence = Some 0.95\<rparr>,
                 \<lparr>timestamp = Parsed 63899999940000000, dominant_emotion = Some ''angry'', confidence = Some 0.95\<rparr>]
                None None) = Inr issues
         \<and> of_type ''extreme_emotion'' issues = [x] \<and> severity x = ''high'')"
  using extreme_emotion_iff [where
    obs = "[\<lparr>timestamp = Parsed 63899999880000000, dominant_emotion = Some ''angry'', confidence = Some 0.95\<rparr>,
            \<lparr>timestamp = Parsed 63899999940000000, dominant_emotion = Some ''angry'', confidence = Some 0.95\<rparr>]"
    and a = "\<lparr>timestamp = Parsed 63899999880000000, dominant_emotion = Some ''angry'', confidence = Some 0.95\<rparr>"
    and b = "\<lparr>timestamp = Parsed 63899999940000000, dominant_emotion = Some ''angry'', confidence = Some 0.95\<rparr>"
    and h = "[]" and now = 63900000000000000 and audio = None and li = None
    and clk = "\<lparr>now_sustained = 63900000000000000, now_swings = 63900000000000000,
                now_extreme = 63900000000000000, now_breakdown = 63900000000000000,
                now_log = (\<lambda>k. 63900000000000000)\<rparr>"]
  by (simp add: well_formed_def window_def within_minutes_def extreme_count_def labelled_with_def
        emotion_value_def confidence_value_def)

subsection \<open>C5: rapid emotion swings\<close>

text \<open>
  Claim C5, as the specification states it, fails in two ways. First, sixteen observations
  within the last three minutes whose labels alternate between \<^verbatim>\<open>happy\<close> and no label at
  all: fifteen adjacent pairs differ in their labels, but the loop counts only the eight
  steps away from \<^verbatim>\<open>happy\<close> (after an observation without a label, \<^verbatim>\<open>prev_emotion\<close> is
  false), and no issue is produced. Second, sixteen observations alternating \<^verbatim>\<open>happy\<close> and
  \<^verbatim>\<open>sad\<close> followed by one with an unparsable timestamp: fifteen changes in the window, but
  the rule raises \<^verbatim>\<open>ValueError\<close>.
\<close>

theorem rapid_emotion_swings_counterexample:
  "3 \<le> length (window 63900000000000000 5
     (map (\<lambda>k. \<lparr>timestamp = Parsed (63899999840000000 + 10000000 * int k),
                 dominant_emotion = (if even k then Some ''happy'' else None),
                 confidence = Some 0.6\<rparr>) [0 ..< 16]))
   \<and> 3 * 5 \<le> label_changes (window 63900000000000000 5
     (map (\<lambda>k. \<lparr>timestamp = Parsed (63899999840000000 + 10000000 * int k),
                 dominant_emotion = (if even k then Some ''happy'' else None),
                 confidence = Some 0.6\<rparr>) [0 ..< 16]))
   \<and> check_rapid_emotion_swings init 63900000000000000
     (map (\<lambda>k. \<lparr>timestamp = Parsed (63899999840000000 + 10000000 * int k),
                 dominant_emotion = (if even k then Some ''happy'' else None),
                 confidence = Some 0.6\<rparr>) [0 ..< 16])
     = Inr None
   \<and> 3 \<le> length (window 63900000000000000 5
     (map (\<lambda>k. \<lparr>timestamp = Parsed (63899999840000000 + 10000000 * int k),
                 dominant_emotion = Some (if even k then ''happy'' else ''sad''),
                 confidence = Some 0.6\<rparr>) [0 ..< 16]
      @ [\<lparr>timestamp = Unparsable, dominant_emotion = Some ''sad'', confidence = Some 0.6\<rparr>]))
   \<and> 3 * 5 \<le> label_changes (window 63900000000000000 5
     (map (\<lambda>k. \<lparr>timestamp = Parsed (63899999840000000 + 10000000 * int k),
                 dominant_emotion = Some (if even k then ''happy'' else ''sad''),
                 confidence = Some 0.6\<rparr>) [0 ..< 16]
      @ [\<lparr>timestamp = Unparsable, dominant_emotion = Some ''sad'', confidence = Some 0.6\<rparr>]))
   \<and> check_rapid_emotion_swings init 63900000000000000
     (map (\<lambda>k. \<lparr>timestamp = Parsed (63899999840000000 + 10000000 * int k),
                 dominant_emotion = Some (if even k then ''happy'' else ''sad''),
                 confidence = Some 0.6\<rparr>) [0 ..< 16]
      @ [\<lparr>timestamp = Unparsable, dominant_emotion = Some ''sad'', confidence = Some 0.6\<rparr>])
     = Inl ValueError"
  unfolding upto_16
  by (simp add: window_def within_minutes_def label_changes_def check_rapid_emotion_swings_def
        init_def observed_at_def minutes_between_def truthy_def Let_def)

text \<open>
  Claim C5, amended. On a well-formed observation sequence in which every observation carries a
  label, the rule produces an issue, of type \<^verbatim>\<open>rapid_emotion_swings\<close> and severity
  \<^verbatim>\<open>medium\<close>, if and only if at least 3 observations lie within 5 minutes of \<open>now\<close> and,
  walking the observations of the window in order, the adjacent pairs with different
  labels number at least \<^verbatim>\<open>swings_per_minute\<close> (3) times \<^verbatim>\<open>time_window_minutes\<close> (5), that
  is 15.
\<close>

theorem rapid_emotion_swings_iff:
  assumes "well_formed obs" and "list_all has_label obs"
  shows "check_rapid_emotion_swings (init\<lparr>issue_history := h\<rparr>) now obs =
           Inr (if 3 \<le> length (window now 5 obs) \<and> 3 * 5 \<le> label_changes (window now 5 obs)
                then Some
                  \<lparr>type = ''rapid_emotion_swings'',
                   severity = ''medium'',
                   details =
                     [(''swings_detected'', JInt (int (label_changes (window now 5 obs)))),
                      (''time_window_minutes'', JInt 5)],
                   recommendation = ''Monitor closely. May indicate stress or instability.''\<rparr>
                else None)"
  using swings_rule [OF assms, of "init\<lparr>issue_history := h\<rparr>" now] by simp

text \<open>
  Sixteen observations, ten seconds apart, within the last three minutes, alternating
  \<^verbatim>\<open>happy\<close> and \<^verbatim>\<open>sad\<close>: fifteen changes, and the issue is raised.
\<close>

theorem rapid_emotion_swings_iff_witness:
  "well_formed
     (map (\<lambda>k. \<lparr>timestamp = Parsed (63899999840000000 + 10000000 * int k),
                 dominant_emotion = Some (if even k then ''happy'' else ''sad''),
                 confidence = Some 0.6\<rparr>) [0 ..< 16])
   \<and> list_all has_label
     (map (\<lambda>k. \<lparr>timestamp = Parsed (63899999840000000 + 10000000 * int k),
                 dominant_emotion = Some (if even k then ''happy'' else ''sad''),
                 confidence = Some 0.6\<rparr>) [0 ..< 16])
   \<and> check_rapid_emotion_swings (init\<lparr>issue_history := []\<rparr>) 63900000000000000
     (map (\<lambda>k. \<lparr>timestamp = Parsed (63899999840000000 + 10000000 * int k),
                 dominant_emotion = Some (if even k then ''happy'' else ''sad''),
                 confidence = Some 0.6\<rparr>) [0 ..< 16])
     = Inr (Some
         \<lparr>type = ''rapid_emotion_swings'',
          severity = ''medium'',
          details = [(''swings_detected'', JInt 15), (''time_window_minutes'', JInt 5)],
          recommendation = ''Monitor closely. May indicate stress or instability.''\<rparr>)"
  using rapid_emotion_swings_iff [of
     "map (\<lambda>k. \<lparr>timestamp = Parsed (63899999840000000 + 10000000 * int k),
                 dominant_emotion = Some (if even k then ''happy'' else ''sad''),
                 confidence = Some 0.6\<rparr>) [0 ..< 16]"
     "[]" 63900000000000000]
  unfolding upto_16
  by (simp add: well_formed_def has_label_def window_def within_minutes_def label_changes_def)

subsection \<open>C6: communication breakdown\<close>

text \<open>
  Claim C6, as the specification states it, fails when a timestamp does not parse: the
  emotion rules run before the communication rule, and their exception leaves the call.
  Here the last interaction is 31 minutes old and the one observation has an unparsable
  timestamp: the call raises \<^verbatim>\<open>ValueError\<close>, and no \<^verbatim>\<open>communication_breakdown\<close> issue is
  raised.
\<close>

theorem communication_breakdown_counterexample:
  "(30::int) * 60000000 \<le> 63900000000000000 - 63899998140000000
   \<and> check_critical_issues
        \<lparr>now_sustained = 63900000000000000, now_swings = 63900000000000000,
         now_extreme = 63900000000000000, now_breakdown = 63900000000000000,
         now_log = (\<lambda>k. 63900000000000000)\<rparr>
        init
        [\<lparr>timestamp = Unparsable, dominant_emotion = Some ''neutral'', confidence = Some 1\<rparr>]
        None (Some 63899998140000000)
      = (Inl ValueError, init)"
  by (simp add: check_critical_issues_def check_sustained_negative_emotion_def
        check_rapid_emotion_swings_def check_extreme_emotion_def init_def observed_at_def Let_def)

text \<open>
  Claim C6, amended. When \<^verbatim>\<open>last_interaction\<close> is absent, \<^verbatim>\<open>check_critical_issues\<close> raises
  no \<^verbatim>\<open>communication_breakdown\<close> issue, whatever the observations are. When it is given and
  no observation has an unparsable timestamp, the call returns, and among the issues it
  returns there is exactly one \<^verbatim>\<open>communication_breakdown\<close> issue, of severity \<^verbatim>\<open>high\<close>, if
  at least 30 minutes have passed since the last interaction, 30 minutes exactly included,
  and none otherwise.
\<close>

theorem communication_breakdown_iff:
  "of_type ''communication_breakdown''
     (case fst (check_critical_issues clk (init\<lparr>issue_history := h\<rparr>) obs audio None) of
        Inl err \<Rightarrow> [] | Inr issues \<Rightarrow> issues) = []
   \<and> (well_formed obs \<longrightarrow>
        (\<exists>issues.
           fst (check_critical_issues clk (init\<lparr>issue_history := h\<rparr>) obs audio (Some t)) = Inr issues
           \<and> of_type ''communication_breakdown'' issues =
               (if 30 * 60000000 \<le> now_breakdown clk - t
                then [\<lparr>type = ''communication_breakdown'',
                       severity = ''high'',
                       details =
                         [(''minutes_since_last_interaction'',
                           JFloat (minutes_between (now_breakdown clk) t))],
                       recommendation =
                         ''Attempt to re-establish communication. If unsuccessful, notify ground control.''\<rparr>]
                else [])))"
proof -
  let ?D = "init\<lparr>issue_history := h\<rparr>"
  have th: "critical_thresholds ?D = critical_thresholds init"
    by simp
  have absent: "of_type ''communication_breakdown''
     (case fst (check_critical_issues clk ?D obs audio None) of
        Inl err \<Rightarrow> [] | Inr issues \<Rightarrow> issues) = []"
  proof (cases "fst (check_critical_issues clk ?D obs audio None)")
    case (Inl err)
    then show ?thesis by (simp add: of_type_def)
  next
    case (Inr issues)
    then obtain s w e
      where s: "check_sustained_negative_emotion ?D (now_sustained clk) obs = Inr s"
        and w: "check_rapid_emotion_swings ?D (now_swings clk) obs = Inr w"
        and e: "check_extreme_emotion ?D (now_extreme clk) obs = Inr e"
      by (auto simp: check_critical_issues_def Let_def split: sum.splits)
    show ?thesis
      using check_returns [OF s w e, of audio None] emotion_rules_raise_no_breakdown [OF s w e]
      by simp
  qed
  have given: "\<exists>issues.
           fst (check_critical_issues clk ?D obs audio (Some t)) = Inr issues
           \<and> of_type ''communication_breakdown'' issues =
               (if 30 * 60000000 \<le> now_breakdown clk - t
                then [\<lparr>type = ''communication_breakdown'',
                       severity = ''high'',
                       details =
                         [(''minutes_since_last_interaction'',
                           JFloat (minutes_between (now_breakdown clk) t))],
                       recommendation =
                         ''Attempt to re-establish communication. If unsuccessful, notify ground control.''\<rparr>]
                else [])"
    if wf: "well_formed obs"
  proof -
    obtain s where s: "check_sustained_negative_emotion ?D (now_sustained clk) obs = Inr s"
      using sustained_rule_returns [OF wf th] by blast
    obtain w where w: "check_rapid_emotion_swings ?D (now_swings clk) obs = Inr w"
      using swings_rule_returns [OF wf th] by blast
    obtain e where e: "check_extreme_emotion ?D (now_extreme clk) obs = Inr e"
      using extreme_rule_returns [OF wf th] by blast
    have "of_type ''communication_breakdown'' (append_if s @ append_if w @ append_if e @ rest)
            = of_type ''communication_breakdown'' rest" for rest
      using emotion_rules_raise_no_breakdown [OF s w e] by (simp add: of_type_append)
    then show ?thesis
      using check_returns [OF s w e, of audio "Some t"] breakdown_rule [OF th, of "now_breakdown clk" t]
      by (simp add: of_type_def append_if_def)
  qed
  from absent given show ?thesis by blast
qed

text \<open>The boundary: a last interaction exactly 30 minutes before \<open>now\<close> raises the issue.\<close>

theorem communication_breakdown_iff_witness:
  "well_formed
     [\<lparr>timestamp = Parsed 63899999880000000, dominant_emotion = Some ''happy'', confidence = Some 0.9\<rparr>]
   \<and> (\<exists>issues.
         fst (check_critical_issues
                \<lparr>now_sustained = 63900000000000000, now_swings = 63900000000000000,
                 now_extreme = 63900000000000000, now_breakdown = 63900000000000000,
                 now_log = (\<lambda>k. 63900000000000000)\<rparr>
                (init\<lparr>issue_history := []\<rparr>)
                [\<lparr>timestamp = Parsed 63899999880000000, dominant_emotion = Some ''happy'', confidence = Some 0.9\<rparr>]
                None (Some 63899998200000000)) = Inr issues
         \<and> of_type ''communication_breakdown'' issues =
             [\<lparr>type = ''communication_breakdown'',
               severity = ''high'',
               details = [(''minutes_since_last_interaction'', JFloat 30)],
               recommendation =
                 ''Attempt to re-establish communication. If unsuccessful, notify ground control.''\<rparr>])"
  using communication_breakdown_iff [where
    obs = "[\<lparr>timestamp = Parsed 63899999880000000, dominant_emotion = Some ''happy'', confidence = Some 0.9\<rparr>]"
    and clk = "\<lparr>now_sustained = 63900000000000000, now_swings = 63900000000000000,
      now_extreme = 63900000000000000, now_breakdown = 63900000000000000,
      now_log = (\<lambda>k. 63900000000000000)\<rparr>"
    and h = "[]" and audio = None and t = 63899998200000000]
  by (simp add: well_formed_def minutes_between_def)

subsection \<open>C7: the history is append-only\<close>

text \<open>
  Claim C7. \<^verbatim>\<open>issue_history\<close> is append-only. A call of \<^verbatim>\<open>check_critical_issues\<close> leaves the
  old entries in place and in order and appends, after them, the entries \<open>logged\<close> for the
  issues it returns, one entry for each issue and in the order of the issues (none when it
  raises). There is no de-duplication: what a call returns does not depend on the calls made
  before it, so checking the same window again raises the same issues and appends them again.
  \<^verbatim>\<open>get_issue_history\<close> and \<^verbatim>\<open>generate_report\<close> leave the history as it is.
\<close>

theorem issue_history_append_only:
  "issue_history (snd (check_critical_issues clk self obs audio li)) =
     issue_history self @
       logged (now_log clk) 0
         (case fst (check_critical_issues clk self obs audio li) of
            Inl err \<Rightarrow> [] | Inr issues \<Rightarrow> issues)
   \<and> length (logged (now_log clk) 0 issues) = length issues
   \<and> map h_issue_type (logged (now_log clk) 0 issues) = map type issues
   \<and> fst (check_critical_issues clk (snd (check_critical_issues clk' self obs' audio' li')) obs audio li)
       = fst (check_critical_issues clk self obs audio li)
   \<and> issue_history (snd (get_issue_history now self hours)) = issue_history self
   \<and> issue_history (snd (generate_report strftime json_dumps now self issues)) = issue_history self"
proof -
  have "fst (check_critical_issues clk (snd (check_critical_issues clk' self obs' audio' li')) obs audio li)
          = fst (check_critical_issues clk self obs audio li)"
    by (rule check_result_thresholds_only) (rule check_keeps_thresholds)
  moreover have "issue_history (snd (get_issue_history now self hours)) = issue_history self"
    by (simp add: get_issue_history_def split: sum.splits)
  moreover have "issue_history (snd (generate_report strftime json_dumps now self issues)) = issue_history self"
    by (simp add: generate_report_def)
  ultimately show ?thesis
    using check_history [of clk self obs audio li] logged_length [of "now_log clk" 0 issues]
          logged_fields [of "now_log clk" 0 issues]
    by simp
qed

subsection \<open>C8: the history query\<close>

text \<open>
  Claim C8. For a look-back of \<open>hours\<close> hours that stays inside the calendar (\<open>now\<close> and
  \<open>now\<close> minus the look-back are both instants a \<^verbatim>\<open>datetime\<close> can hold),
  \<^verbatim>\<open>get_issue_history\<close> returns exactly the entries of \<^verbatim>\<open>issue_history\<close> raised at most that
  long before \<open>now\<close>, in their order of insertion, and the detector it leaves is the one it
  was given.
\<close>

theorem get_issue_history_window:
  assumes "valid_datetime now" and "valid_datetime (now - hours * 3600000000)"
  shows "get_issue_history now self hours =
           (Inr (filter (\<lambda>e. now - h_timestamp e \<le> hours * 3600000000) (issue_history self)), self)"
proof -
  have "(now - hours * 3600000000 \<le> t) = (now - t \<le> hours * 3600000000)" for t
    by linarith
  then show ?thesis
    using timedelta_hours_in_range [OF assms] assms(2)
    by (simp add: get_issue_history_def datetime_minus_def)
qed

text \<open>
  A look-back of 24 hours over a history of two entries, raised 25 hours and 1 hour before
  \<open>now\<close>: the second entry alone is returned.
\<close>

theorem get_issue_history_window_witness:
  "valid_datetime 63900000000000000
   \<and> valid_datetime (63900000000000000 - 24 * 3600000000)
   \<and> get_issue_history 63900000000000000
        (init\<lparr>issue_history :=
           [\<lparr>h_timestamp = 63899910000000000, h_issue_type = ''extreme_emotion'',
             h_severity = ''high'', h_details = []\<rparr>,
            \<lparr>h_timestamp = 63899996400000000, h_issue_type = ''rapid_emotion_swings'',
             h_severity = ''medium'', h_details = []\<rparr>]\<rparr>) 24
     = (Inr [\<lparr>h_timestamp = 63899996400000000, h_issue_type = ''rapid_emotion_swings'',
              h_severity = ''medium'', h_details = []\<rparr>],
        init\<lparr>issue_history :=
           [\<lparr>h_timestamp = 63899910000000000, h_issue_type = ''extreme_emotion'',
             h_severity = ''high'', h_details = []\<rparr>,
            \<lparr>h_timestamp = 63899996400000000, h_issue_type = ''rapid_emotion_swings'',
             h_severity = ''medium'', h_details = []\<rparr>]\<rparr>)"
  using get_issue_history_window [of 63900000000000000 24
    "init\<lparr>issue_history :=
           [\<lparr>h_timestamp = 63899910000000000, h_issue_type = ''extreme_emotion'',
             h_severity = ''high'', h_details = []\<rparr>,
            \<lparr>h_timestamp = 63899996400000000, h_issue_type = ''rapid_emotion_swings'',
             h_severity = ''medium'', h_details = []\<rparr>]\<rparr>"]
  by (simp add: valid_datetime_def datetime_max_def)

subsection \<open>C9: the report\<close>

text \<open>
  Claim C9. Two reports of the same issues, made at any two times, are equal once the
  leading line with the time is removed from each; that line is the start of the report;
  and what follows it is the rule of 50 equal signs and the text of the issues (index,
  title-cased type, uppercased severity, serialized details, recommendation), which is
  computed from the issues alone. For no issues the report is the fixed sentence.
\<close>

theorem generate_report_idempotent:
  "drop (length (timestamp_line strftime now issues))
        (fst (generate_report strftime json_dumps now self issues))
     = drop (length (timestamp_line strftime now' issues))
        (fst (generate_report strftime json_dumps now' self' issues))
   \<and> take (length (timestamp_line strftime now issues))
        (fst (generate_report strftime json_dumps now self issues))
     = timestamp_line strftime now issues
   \<and> drop (length (timestamp_line strftime now issues))
        (fst (generate_report strftime json_dumps now self issues))
     = (if issues = [] then ''No critical issues detected. All systems normal.''
        else replicate 50 (CHR ''='') @ [newline, newline] @ rendered_issues json_dumps 1 issues)"
  by (simp add: generate_report_text) (simp add: timestamp_line_def)

subsection \<open>C10: the audio argument\<close>

text \<open>
  Claim C10. Two calls of \<^verbatim>\<open>check_critical_issues\<close> that differ only in \<^verbatim>\<open>audio_data\<close>
  return the same issues (or raise the same error) and leave the same detector: the
  argument is never read.
\<close>

theorem audio_data_never_read:
  "check_critical_issues clk self emotion_data audio_data last_interaction
     = check_critical_issues clk self emotion_data audio_data' last_interaction"
  by (simp add: check_critical_issues_def)

end
